theory Spec2Isabelle
  imports Main
begin

section \<open>Remote paths\<close>

text \<open>
  The client of \<^verbatim>\<open>mlgit_client.py\<close> holds the account, the repository and the registry
  root. The root is optional in the constructor (\<^verbatim>\<open>registry_dpath: str = None\<close>), so it is
  a \<open>string option\<close>, with \<open>None\<close> for Python's \<^verbatim>\<open>None\<close>.
\<close>

record client =
  user_name :: string
  repo_name :: string
  registry_dpath :: "string option"

text \<open>Python's \<^verbatim>\<open>sep.join(parts)\<close>.\<close>

fun str_join :: "string \<Rightarrow> string list \<Rightarrow> string" where
  "str_join sep [] = []"
| "str_join sep [p] = p"
| "str_join sep (p # q # ps) = p @ sep @ str_join sep (q # ps)"

text \<open>
  \<^verbatim>\<open>'/'.join([c for c in [self.registry_dpath, model_name, model_version, artifact_name]
                 if c is not None])\<close>
\<close>

definition model_remote_path ::
  "client \<Rightarrow> string \<Rightarrow> string option \<Rightarrow> string option \<Rightarrow> string" where
  "model_remote_path self model_name model_version artifact_name =
     str_join ''/''
       (List.map_filter (\<lambda>path_component. path_component)
          [registry_dpath self, Some model_name, model_version, artifact_name])"

section \<open>Backtest tables\<close>

text \<open>
  A point in time is an \<open>int\<close> (pandas counts nanoseconds). A \<open>stamp\<close> is a cell of a
  datetime column: \<open>None\<close> is \<^verbatim>\<open>NaT\<close>, which compares false with everything. A \<open>moment\<close> is
  what a caller can pass as \<^verbatim>\<open>version_timestamp\<close> and what \<^verbatim>\<open>index.max()\<close> returns: a
  timestamp, a period (held by the instant at which it starts, which is what
  \<^verbatim>\<open>to_timestamp()\<close> gives), or \<^verbatim>\<open>NaT\<close>.
\<close>

type_synonym stamp = "int option"

datatype moment = Timestamp int | Period int | NaT

datatype index_kind = DatetimeIndex | PeriodIndex

datatype label = StrLabel string | IntLabel int

text \<open>
  A \<^verbatim>\<open>DataFrame\<close> indexed by time: the name and kind of its index, its column labels, and
  its rows in order, each an index key with the row's cells \<open>'r\<close>. The code reads and writes
  one column only, \<^verbatim>\<open>version_timestamp\<close>; the cells of all other columns of a row are kept
  together as one value of type \<open>'a\<close>. The table a caller passes in is an \<open>'a frame\<close>; once the
  \<^verbatim>\<open>version_timestamp\<close> column is set, it is a \<open>(stamp \<times> 'a) frame\<close>. Index keys are
  instants (a key is never \<^verbatim>\<open>NaT\<close>).
\<close>

record 'r frame =
  index_name :: "string option"
  index_kind :: index_kind
  columns :: "label list"
  rows :: "(int \<times> 'r) list"

definition index :: "(int \<times> 'r) list \<Rightarrow> int list" where
  "index rs = map fst rs"

definition version_timestamps :: "(int \<times> stamp \<times> 'a) list \<Rightarrow> stamp list" where
  "version_timestamps rs = map (\<lambda>r. fst (snd r)) rs"

text \<open>\<^verbatim>\<open>model_backtest.index.max()\<close>; \<^verbatim>\<open>NaT\<close> on an empty index.\<close>

definition index_max :: "'r frame \<Rightarrow> moment" where
  "index_max f =
     (case index (rows f) of
        [] \<Rightarrow> NaT
      | k # ks \<Rightarrow>
          (if index_kind f = PeriodIndex then Period (fold max ks k)
           else Timestamp (fold max ks k)))"

text \<open>
  \<^verbatim>\<open>if isinstance(version_timestamp, pd.Period):
      version_timestamp = version_timestamp.to_timestamp()\<close>
\<close>

fun to_timestamp :: "moment \<Rightarrow> stamp" where
  "to_timestamp (Timestamp t) = Some t"
| "to_timestamp (Period p) = Some p"
| "to_timestamp NaT = None"

text \<open>Python's \<^verbatim>\<open>str\<close> of a column label.\<close>

fun str_of_nat :: "nat \<Rightarrow> string" where
  "str_of_nat n =
     (if n < 10 then [''0123456789'' ! n]
      else str_of_nat (n div 10) @ [''0123456789'' ! (n mod 10)])"

fun str_of_label :: "label \<Rightarrow> string" where
  "str_of_label (StrLabel s) = s"
| "str_of_label (IntLabel i) =
     (if i < 0 then ''-'' @ str_of_nat (nat (- i)) else str_of_nat (nat i))"

text \<open>
  Lines 123 to 137 of \<^verbatim>\<open>log_model_backtest\<close>, which work on the caller's table in place:
  the default of \<^verbatim>\<open>version_timestamp\<close>, the change of a period index to timestamps, the
  default index name, the column labels as strings, and the \<^verbatim>\<open>version_timestamp\<close> column
  (set on an existing column of that name, appended otherwise). The result is the
  caller's table after these lines, with the version timestamp they computed.
\<close>

definition normalize_version_timestamp :: "'a frame \<Rightarrow> moment option \<Rightarrow> stamp" where
  "normalize_version_timestamp model_backtest version_timestamp =
     to_timestamp
       (case version_timestamp of None \<Rightarrow> index_max model_backtest | Some t \<Rightarrow> t)"

definition set_column_version_timestamp :: "stamp \<Rightarrow> 'a frame \<Rightarrow> (stamp \<times> 'a) frame" where
  "set_column_version_timestamp version_timestamp f =
     \<lparr> index_name = index_name f,
       index_kind = index_kind f,
       columns =
         (if StrLabel ''version_timestamp'' \<in> set (columns f) then columns f
          else columns f @ [StrLabel ''version_timestamp'']),
       rows = map (\<lambda>(k, r). (k, version_timestamp, r)) (rows f) \<rparr>"

definition normalize_backtest :: "'a frame \<Rightarrow> moment option \<Rightarrow> (stamp \<times> 'a) frame" where
  "normalize_backtest model_backtest version_timestamp =
     (let f1 = model_backtest
            \<lparr> index_kind := (if index_kind model_backtest = PeriodIndex then DatetimeIndex
                             else index_kind model_backtest) \<rparr>;
          f2 = f1 \<lparr> index_name :=
                     (case index_name f1 of None \<Rightarrow> Some ''date'' | Some n \<Rightarrow> Some n) \<rparr>;
          f3 = f2 \<lparr> columns := map (\<lambda>l. StrLabel (str_of_label l)) (columns f2) \<rparr>
      in set_column_version_timestamp
           (normalize_version_timestamp model_backtest version_timestamp) f3)"

subsection \<open>The merge\<close>

text \<open>Comparisons of datetime cells; \<^verbatim>\<open>NaT\<close> compares false.\<close>

fun stamp_gt :: "stamp \<Rightarrow> stamp \<Rightarrow> bool" where
  "stamp_gt (Some a) (Some b) = (a > b)"
| "stamp_gt _ _ = False"

fun key_lt :: "int \<Rightarrow> stamp \<Rightarrow> bool" where
  "key_lt k (Some t) = (k < t)"
| "key_lt k None = False"

text \<open>\<^verbatim>\<open>index.isin(values)\<close> and the element-wise \<^verbatim>\<open>&\<close> of two boolean series.\<close>

definition isin :: "int list \<Rightarrow> int list \<Rightarrow> bool list" where
  "isin idx values = map (\<lambda>k. k \<in> set values) idx"

definition series_and :: "bool list \<Rightarrow> bool list \<Rightarrow> bool list" where
  "series_and xs ys = map2 (\<and>) xs ys"

text \<open>
  The mask of lines 147 to 149:
  \<^verbatim>\<open>(prior.index.isin(model_backtest.index)) &
  (prior["version_timestamp"] > version_timestamp) &
  (prior.index < prior["version_timestamp"])\<close>
\<close>

definition override_mask ::
  "(int \<times> stamp \<times> 'a) list \<Rightarrow> (int \<times> stamp \<times> 'a) list \<Rightarrow> stamp \<Rightarrow> bool list" where
  "override_mask prior model_backtest version_timestamp =
     series_and
       (series_and
          (isin (index prior) (index model_backtest))
          (map (\<lambda>t. stamp_gt t version_timestamp) (version_timestamps prior)))
       (map2 key_lt (index prior) (version_timestamps prior))"

datatype error =
    NotFound | Transport | Timeout
  | FileExistsError | FileNotFoundError | IsADirectoryError
  | TypeError | ValueError | AttributeError
  | JSONDecodeError | ParserError

text \<open>
  \<^verbatim>\<open>prior[mask] = model_backtest\<close>, pandas' \<^verbatim>\<open>DataFrame.__setitem__\<close> with a boolean mask and
  a table as the value: the value is reindexed to the keys of the selected rows, and the
  selected rows are set to the reindexed rows. Reindexing a table whose index has
  duplicate keys raises \<^verbatim>\<open>ValueError\<close> (when at least one row is selected); a key that
  the value lacks gives a row of missing values, \<open>na\<close>. Both tables carry the same
  columns in the same order, as tables written by this client for one model do.
\<close>

definition reindex :: "'r \<Rightarrow> (int \<times> 'r) list \<Rightarrow> int list \<Rightarrow> error + (int \<times> 'r) list" where
  "reindex na val keys =
     (if keys \<noteq> [] \<and> \<not> distinct (index val) then Inl ValueError
      else Inr (map (\<lambda>k. (k, case map_of val k of Some r \<Rightarrow> r | None \<Rightarrow> na)) keys))"

fun iloc_set :: "(int \<times> 'r) list \<Rightarrow> bool list \<Rightarrow> (int \<times> 'r) list \<Rightarrow> (int \<times> 'r) list" where
  "iloc_set (row # rs) (True # ms) (v # vs) = v # iloc_set rs ms vs"
| "iloc_set (row # rs) (False # ms) vs = row # iloc_set rs ms vs"
| "iloc_set rs _ _ = rs"

definition setitem_mask ::
  "'r \<Rightarrow> (int \<times> 'r) list \<Rightarrow> bool list \<Rightarrow> (int \<times> 'r) list \<Rightarrow> error + (int \<times> 'r) list" where
  "setitem_mask na prior key val =
     (case reindex na val (map fst (filter snd (zip (index prior) key))) of
        Inl e \<Rightarrow> Inl e
      | Inr selected \<Rightarrow> Inr (iloc_set prior key selected))"

text \<open>
  Lines 146 to 155: the overwrite, then \<^verbatim>\<open>pd.concat\<close> of the prior table with the new rows
  whose key the prior table lacks, then \<^verbatim>\<open>sort_index()\<close>. The concatenation keeps the index
  name when both tables agree on it, and the columns of both.
\<close>

definition override_values ::
  "'a \<Rightarrow> (int \<times> stamp \<times> 'a) list \<Rightarrow> (int \<times> stamp \<times> 'a) list \<Rightarrow> stamp
     \<Rightarrow> error + (int \<times> stamp \<times> 'a) list" where
  "override_values na prior model_backtest version_timestamp =
     setitem_mask (None, na) prior
       (override_mask prior model_backtest version_timestamp) model_backtest"

definition new_keys_only ::
  "(int \<times> 'r) list \<Rightarrow> (int \<times> 'r) list \<Rightarrow> (int \<times> 'r) list" where
  "new_keys_only model_backtest prior =
     map fst (filter snd
       (zip model_backtest (map Not (isin (index model_backtest) (index prior)))))"

definition concat_sorted ::
  "(stamp \<times> 'a) frame \<Rightarrow> (int \<times> stamp \<times> 'a) list \<Rightarrow> (stamp \<times> 'a) frame
     \<Rightarrow> (stamp \<times> 'a) frame" where
  "concat_sorted prior prior_rows model_backtest =
     \<lparr> index_name =
         (if index_name prior = index_name model_backtest then index_name prior else None),
       index_kind = DatetimeIndex,
       columns =
         columns prior @ filter (\<lambda>l. l \<notin> set (columns prior)) (columns model_backtest),
       rows = sort_key fst (prior_rows @ new_keys_only (rows model_backtest) prior_rows) \<rparr>"

definition merge_backtest ::
  "'a \<Rightarrow> (stamp \<times> 'a) frame \<Rightarrow> (stamp \<times> 'a) frame \<Rightarrow> stamp
     \<Rightarrow> error + (stamp \<times> 'a) frame" where
  "merge_backtest na prior model_backtest version_timestamp =
     (case override_values na (rows prior) (rows model_backtest) version_timestamp of
        Inl e \<Rightarrow> Inl e
      | Inr prior_rows \<Rightarrow> Inr (concat_sorted prior prior_rows model_backtest))"

section \<open>The world outside the client\<close>

text \<open>
  What the client acts on: the files of the remote repository, the files and
  directories of the local disk, the current working directory, and the failures that
  the coming calls to the remote store will meet. Paths are plain strings; the parent
  directories of a path are taken to exist. A file holds a JSON value, a table as
  \<^verbatim>\<open>to_csv\<close> writes it and \<^verbatim>\<open>read_csv\<close> reads it back, or a model object as the serializer
  writes it.
\<close>

datatype json =
  JNull | JBool bool | JNum int | JStr string | JArr "json list" | JObj "(string \<times> json) list"

datatype ('a, 'm) content = Json json | Csv "(stamp \<times> 'a) frame" | Pickled 'm

record ('a, 'm) world =
  remote :: "(string \<times> ('a, 'm) content) list"
  files :: "(string \<times> ('a, 'm) content) list"
  dirs :: "string list"
  cwd :: string
  faults :: "error option list"

text \<open>
  An operation takes the world and returns its outcome, a value or the exception it
  raised, with the world it leaves behind. \<open>and_then\<close> is Python's sequencing: an
  exception of the first operation skips the second.
\<close>

type_synonym ('w, 'x) action = "'w \<Rightarrow> (error + 'x) \<times> 'w"

definition returns :: "'x \<Rightarrow> ('w, 'x) action" where
  "returns x w = (Inr x, w)"

definition raises :: "error \<Rightarrow> ('w, 'x) action" where
  "raises e w = (Inl e, w)"

definition and_then :: "('w, 'x) action \<Rightarrow> ('x \<Rightarrow> ('w, 'y) action) \<Rightarrow> ('w, 'y) action" where
  "and_then m f w = (case m w of (Inl e, w') \<Rightarrow> (Inl e, w') | (Inr x, w') \<Rightarrow> f x w')"

subsection \<open>Strings and local paths\<close>

fun strip_prefix :: "string \<Rightarrow> string \<Rightarrow> string option" where
  "strip_prefix [] ys = Some ys"
| "strip_prefix (x # xs) [] = None"
| "strip_prefix (x # xs) (y # ys) = (if x = y then strip_prefix xs ys else None)"

definition dir_prefix :: "string \<Rightarrow> string" where
  "dir_prefix d = (if d = [] \<or> last d = CHR ''/'' then d else d @ ''/'')"

text \<open>\<^verbatim>\<open>os.path.join(a, b)\<close> (POSIX) and \<^verbatim>\<open>os.path.basename(p)\<close>.\<close>

definition os_path_join :: "string \<Rightarrow> string \<Rightarrow> string" where
  "os_path_join a b = (if b \<noteq> [] \<and> hd b = CHR ''/'' then b else dir_prefix a @ b)"

definition basename :: "string \<Rightarrow> string" where
  "basename p = rev (takeWhile (\<lambda>c. c \<noteq> CHR ''/'') (rev p))"

text \<open>The path of \<open>p\<close> relative to the directory \<open>d\<close>, when \<open>p\<close> lies inside \<open>d\<close>.\<close>

definition relative_to :: "string \<Rightarrow> string \<Rightarrow> string option" where
  "relative_to d p = strip_prefix (dir_prefix d) p"

text \<open>
  \<^verbatim>\<open>os.path.join\<close> applied to a value that may be \<^verbatim>\<open>None\<close>: Python raises \<^verbatim>\<open>TypeError\<close>.
\<close>

definition os_path_join_object :: "string option \<Rightarrow> string \<Rightarrow> ('w, string) action" where
  "os_path_join_object a b =
     (case a of None \<Rightarrow> raises TypeError | Some d \<Rightarrow> returns (os_path_join d b))"

subsection \<open>The local file system\<close>

definition os_getcwd :: "(('a, 'm) world, string) action" where
  "os_getcwd w = (Inr (cwd w), w)"

definition os_path_exists :: "('a, 'm) world \<Rightarrow> string \<Rightarrow> bool" where
  "os_path_exists w p = (p \<in> set (dirs w) \<or> map_of (files w) p \<noteq> None)"

text \<open>
  \<^verbatim>\<open>os.mkdir(path)\<close> and \<^verbatim>\<open>os.makedirs(path)\<close>: \<^verbatim>\<open>FileExistsError\<close> when the path exists. Both
  return \<^verbatim>\<open>None\<close>; the result is typed as an optional path because \<open>get_model_version\<close>
  uses it as one.
\<close>

definition os_mkdir :: "string \<Rightarrow> (('a, 'm) world, string option) action" where
  "os_mkdir path w =
     (if os_path_exists w path then (Inl FileExistsError, w)
      else (Inr None, w\<lparr>dirs := path # dirs w\<rparr>))"

definition os_makedirs :: "string \<Rightarrow> (('a, 'm) world, string option) action" where
  "os_makedirs path w =
     (if os_path_exists w path then (Inl FileExistsError, w)
      else (Inr None, w\<lparr>dirs := path # dirs w\<rparr>))"

text \<open>
  Writing a file, as \<^verbatim>\<open>open(path, 'w')\<close> with \<^verbatim>\<open>json.dump\<close>, \<^verbatim>\<open>DataFrame.to_csv(path)\<close> and the
  serializer's \<^verbatim>\<open>save(path)\<close> do: the file is created or replaced.
\<close>

definition write_file :: "string \<Rightarrow> ('a, 'm) content \<Rightarrow> (('a, 'm) world, unit) action" where
  "write_file path c w =
     (if path \<in> set (dirs w) then (Inl IsADirectoryError, w)
      else (Inr (), w\<lparr>files := (path, c) # filter (\<lambda>(p, _). p \<noteq> path) (files w)\<rparr>))"

definition os_remove :: "string \<Rightarrow> (('a, 'm) world, unit) action" where
  "os_remove path w =
     (if map_of (files w) path = None
      then (Inl (if path \<in> set (dirs w) then IsADirectoryError else FileNotFoundError), w)
      else (Inr (), w\<lparr>files := filter (\<lambda>(p, _). p \<noteq> path) (files w)\<rparr>))"

text \<open>\<^verbatim>\<open>shutil.rmtree(path)\<close>: the directory goes with everything inside it.\<close>

definition shutil_rmtree :: "string option \<Rightarrow> (('a, 'm) world, unit) action" where
  "shutil_rmtree path w =
     (case path of
        None \<Rightarrow> (Inl TypeError, w)
      | Some d \<Rightarrow>
          (if d \<notin> set (dirs w) then (Inl FileNotFoundError, w)
           else (Inr (),
                 w\<lparr>dirs := filter (\<lambda>p. p \<noteq> d \<and> relative_to d p = None) (dirs w),
                   files := filter (\<lambda>(p, _). relative_to d p = None) (files w)\<rparr>)))"

subsection \<open>The collaborators\<close>

text \<open>
  Modelled from the spec: the remote store (\<^verbatim>\<open>pyutils.git\<close>: \<^verbatim>\<open>read_remote_file\<close>,
  \<^verbatim>\<open>web_remote_fpath\<close>, \<^verbatim>\<open>push_files\<close>, \<^verbatim>\<open>push_directory\<close>, \<^verbatim>\<open>pull_directory\<close>) and the
  serializer (\<^verbatim>\<open>pyutils.pickable.PickableObject\<close>) are imported by the client and are not
  part of it. The spec gives their interface: a read fails with \<open>NotFound\<close> when the path
  is absent; a push puts local files under a remote directory; a pull copies a remote
  directory to a local one; every call can fail in transport or time out. The client
  talks to one repository, so the account, the repository and the token are passed
  and not looked at. Each call first takes the next entry of \<open>faults\<close>: an error there
  is raised and leaves the stores as they were; with no entry left the call meets no
  failure.
\<close>

definition next_fault :: "('a, 'm) world \<Rightarrow> error option" where
  "next_fault w = (case faults w of [] \<Rightarrow> None | fault # _ \<Rightarrow> fault)"

definition attempt :: "(('a, 'm) world, unit) action" where
  "attempt w =
     (case next_fault w of
        None \<Rightarrow> (Inr (), w\<lparr>faults := tl (faults w)\<rparr>)
      | Some e \<Rightarrow> (Inl e, w\<lparr>faults := tl (faults w)\<rparr>))"

definition lookup_remote :: "string \<Rightarrow> (('a, 'm) world, ('a, 'm) content) action" where
  "lookup_remote path w =
     (case map_of (remote w) path of None \<Rightarrow> (Inl NotFound, w) | Some c \<Rightarrow> (Inr c, w))"

definition read_remote_file ::
  "string \<Rightarrow> string \<Rightarrow> string \<Rightarrow> (('a, 'm) world, ('a, 'm) content) action" where
  "read_remote_file user repo path = and_then attempt (\<lambda>_. lookup_remote path)"

definition web_remote_fpath :: "string \<Rightarrow> string \<Rightarrow> string \<Rightarrow> string" where
  "web_remote_fpath user repo path = path"

fun push_each :: "string list \<Rightarrow> string \<Rightarrow> (('a, 'm) world, unit) action" where
  "push_each [] to_remote_dpath w = (Inr (), w)"
| "push_each (fpath # fpaths) to_remote_dpath w =
     (case map_of (files w) fpath of
        None \<Rightarrow> (Inl FileNotFoundError, w)
      | Some c \<Rightarrow>
          push_each fpaths to_remote_dpath
            (w\<lparr>remote := (to_remote_dpath @ ''/'' @ basename fpath, c) # remote w\<rparr>))"

definition push_files ::
  "string \<Rightarrow> string \<Rightarrow> string list \<Rightarrow> string \<Rightarrow> (('a, 'm) world, unit) action" where
  "push_files access_token repo from_local_fpaths to_remote_dpaths =
     and_then attempt (\<lambda>_. push_each from_local_fpaths to_remote_dpaths)"

text \<open>The files inside a local directory, each under its path in the remote directory.\<close>

definition pushed_entries ::
  "string \<Rightarrow> string \<Rightarrow> (string \<times> 'c) list \<Rightarrow> (string \<times> 'c) list" where
  "pushed_entries from_local_dpath to_remote_dpath fs =
     List.map_filter
       (\<lambda>(p, c). map_option (\<lambda>rel. (to_remote_dpath @ ''/'' @ rel, c))
                    (relative_to from_local_dpath p))
       fs"

definition push_directory ::
  "string \<Rightarrow> string \<Rightarrow> string \<Rightarrow> string \<Rightarrow> nat \<Rightarrow> (('a, 'm) world, unit) action" where
  "push_directory access_token repo from_local_dpath to_remote_dpath timeout =
     and_then attempt (\<lambda>_ w.
       if from_local_dpath \<notin> set (dirs w) then (Inl FileNotFoundError, w)
       else (Inr (),
             w\<lparr>remote :=
                 pushed_entries from_local_dpath to_remote_dpath (files w) @ remote w\<rparr>))"

definition pull_directory ::
  "string \<Rightarrow> string \<Rightarrow> string \<Rightarrow> string option \<Rightarrow> (('a, 'm) world, unit) action" where
  "pull_directory user repo remote_dpath local_dpath =
     and_then attempt (\<lambda>_ w.
       let found = List.map_filter
                     (\<lambda>(p, c). map_option (\<lambda>rel. (rel, c))
                                  (strip_prefix (remote_dpath @ ''/'') p))
                     (remote w)
       in if found = [] then (Inl NotFound, w)
          else (case local_dpath of
                  None \<Rightarrow> (Inl TypeError, w)
                | Some d \<Rightarrow>
                    (Inr (),
                     w\<lparr>files := map (\<lambda>(rel, c). (os_path_join d rel, c)) found @ files w\<rparr>)))"

text \<open>The serializer: \<^verbatim>\<open>pickable_model.save(path)\<close> and \<^verbatim>\<open>PickableObject.restore(path)\<close>.\<close>

definition save :: "'m \<Rightarrow> string \<Rightarrow> (('a, 'm) world, unit) action" where
  "save pickable_model path = write_file path (Pickled pickable_model)"

definition restore :: "string \<Rightarrow> (('a, 'm) world, 'm) action" where
  "restore path w =
     (case map_of (files w) path of
        Some (Pickled pickable_model) \<Rightarrow> (Inr pickable_model, w)
      | Some _ \<Rightarrow> (Inl ValueError, w)
      | None \<Rightarrow> (Inl FileNotFoundError, w))"

text \<open>\<^verbatim>\<open>json.loads\<close> of what was read, and \<^verbatim>\<open>pd.read_csv\<close> of a locator.\<close>

definition json_loads :: "('a, 'm) content \<Rightarrow> ('w, json) action" where
  "json_loads c = (case c of Json j \<Rightarrow> returns j | _ \<Rightarrow> raises JSONDecodeError)"

definition pd_read_csv :: "string \<Rightarrow> (('a, 'm) world, (stamp \<times> 'a) frame) action" where
  "pd_read_csv locator =
     and_then attempt (\<lambda>_.
     and_then (lookup_remote locator) (\<lambda>c.
       case c of Csv f \<Rightarrow> returns f | _ \<Rightarrow> raises ParserError))"

section \<open>The client's operations\<close>

text \<open>
  The methods of \<^verbatim>\<open>MLGitClient\<close>, statement by statement. The keyword options that
  \<^verbatim>\<open>get_pandas_artifact\<close> and \<^verbatim>\<open>log_pandas_artifact\<close> hand through to pandas are left out:
  the backtest operations pass none.
\<close>

subsection \<open>Reading\<close>

definition get_json_artifact ::
  "client \<Rightarrow> string \<Rightarrow> string \<Rightarrow> string option \<Rightarrow> (('a, 'm) world, json) action" where
  "get_json_artifact self artifact_name model_name model_version =
     (let remote_artifact_fpath =
            model_remote_path self model_name model_version (Some (artifact_name @ ''.json''))
      in and_then (read_remote_file (user_name self) (repo_name self) remote_artifact_fpath)
           json_loads)"

definition get_version_list :: "client \<Rightarrow> string \<Rightarrow> (('a, 'm) world, json) action" where
  "get_version_list self model_name = get_json_artifact self ''versions'' model_name None"

definition get_pandas_artifact ::
  "client \<Rightarrow> string \<Rightarrow> string \<Rightarrow> string option
     \<Rightarrow> (('a, 'm) world, (stamp \<times> 'a) frame) action" where
  "get_pandas_artifact self artifact_name model_name model_version =
     (let remote_artifact_fpath =
            model_remote_path self model_name model_version (Some (artifact_name @ ''.csv''))
      in pd_read_csv (web_remote_fpath (user_name self) (repo_name self) remote_artifact_fpath))"

text \<open>
  \<open>get_model_backtest\<close> turns the first column of the file, which \<^verbatim>\<open>to_csv\<close> wrote from the
  index, and the \<^verbatim>\<open>version_timestamp\<close> column into datetimes, and makes the first column
  the index. The first column of a file written from an index with no name is read
  under the name \<^verbatim>\<open>Unnamed: 0\<close>.
\<close>

definition get_model_backtest ::
  "client \<Rightarrow> string \<Rightarrow> (('a, 'm) world, (stamp \<times> 'a) frame) action" where
  "get_model_backtest self model_name =
     and_then (get_pandas_artifact self ''backtest'' model_name None) (\<lambda>model_backtest.
       returns
         (model_backtest
            \<lparr> index_name :=
                (case index_name model_backtest of
                   None \<Rightarrow> Some ''Unnamed: 0'' | Some n \<Rightarrow> Some n),
              index_kind := DatetimeIndex \<rparr>))"

definition get_model_version :: "client \<Rightarrow> string \<Rightarrow> string \<Rightarrow> (('a, 'm) world, 'm) action" where
  "get_model_version self model_name model_version =
     and_then os_getcwd (\<lambda>d.
     and_then (os_mkdir (os_path_join d ''temp_model_version'')) (\<lambda>model_version_local_dpath.
     and_then (pull_directory (user_name self) (repo_name self)
                 (model_remote_path self model_name (Some model_version) None)
                 model_version_local_dpath) (\<lambda>_.
     and_then (os_path_join_object model_version_local_dpath ''model'') (\<lambda>fpath.
     and_then (restore fpath) (\<lambda>pickable_model.
     and_then (shutil_rmtree model_version_local_dpath) (\<lambda>_.
       returns pickable_model))))))"

subsection \<open>Logging artifacts\<close>

definition log_artifact ::
  "client \<Rightarrow> string \<Rightarrow> string \<Rightarrow> string \<Rightarrow> string option \<Rightarrow> (('a, 'm) world, unit) action" where
  "log_artifact self access_token artifact_fpath model_name model_version =
     push_files access_token (repo_name self) [artifact_fpath]
       (model_remote_path self model_name model_version None)"

definition log_json_artifact ::
  "client \<Rightarrow> string \<Rightarrow> json \<Rightarrow> string \<Rightarrow> string \<Rightarrow> string option
     \<Rightarrow> (('a, 'm) world, unit) action" where
  "log_json_artifact self access_token json_artifact artifact_name model_name model_version =
     and_then os_getcwd (\<lambda>d.
       let artifact_temp_fpath = os_path_join d (artifact_name @ ''.json'') in
       and_then (write_file artifact_temp_fpath (Json json_artifact)) (\<lambda>_.
       and_then (log_artifact self access_token artifact_temp_fpath model_name model_version)
         (\<lambda>_. os_remove artifact_temp_fpath)))"

definition log_pandas_artifact ::
  "client \<Rightarrow> string \<Rightarrow> (stamp \<times> 'a) frame \<Rightarrow> string \<Rightarrow> string \<Rightarrow> string option
     \<Rightarrow> (('a, 'm) world, unit) action" where
  "log_pandas_artifact self access_token pandas_artifact artifact_name model_name model_version =
     and_then os_getcwd (\<lambda>d.
       let artifact_temp_fpath = os_path_join d (artifact_name @ ''.csv'') in
       and_then (write_file artifact_temp_fpath (Csv pandas_artifact)) (\<lambda>_.
       and_then (log_artifact self access_token artifact_temp_fpath model_name model_version)
         (\<lambda>_. os_remove artifact_temp_fpath)))"


text \<open>
  \<open>log_model_backtest\<close> returns, with the outcome and the world, the caller's table as the
  call leaves it: lines 123 to 137 change the argument itself. The \<^verbatim>\<open>try\<close> around
  \<open>get_model_backtest\<close> has a bare \<^verbatim>\<open>except:\<close>, so every exception of the read takes
  the first branch. \<open>na\<close> is the row of missing values of \<open>reindex\<close>.
\<close>

definition log_model_backtest ::
  "client \<Rightarrow> 'a \<Rightarrow> string \<Rightarrow> 'a frame \<Rightarrow> string \<Rightarrow> moment option \<Rightarrow> ('a, 'm) world
     \<Rightarrow> (stamp \<times> 'a) frame \<times> (error + unit) \<times> ('a, 'm) world" where
  "log_model_backtest self na access_token caller_backtest model_name caller_timestamp w =
     (let version_timestamp = normalize_version_timestamp caller_backtest caller_timestamp;
          model_backtest = normalize_backtest caller_backtest caller_timestamp
      in (model_backtest,
          case get_model_backtest self model_name w of
            (Inl e, w') \<Rightarrow>
              log_pandas_artifact self access_token model_backtest ''backtest'' model_name None w'
          | (Inr prior_model_backtest, w') \<Rightarrow>
              (case merge_backtest na prior_model_backtest model_backtest version_timestamp of
                 Inl e \<Rightarrow> (Inl e, w')
               | Inr new_model_backtest \<Rightarrow>
                   log_pandas_artifact self access_token new_model_backtest ''backtest''
                     model_name None w')))"

subsection \<open>Logging versions\<close>

definition make_model_version_local_paths ::
  "string \<Rightarrow> (('a, 'm) world, string \<times> string) action" where
  "make_model_version_local_paths model_version =
     and_then os_getcwd (\<lambda>d w.
       let model_version_local_dpath = os_path_join d model_version in
       and_then
         (if \<not> os_path_exists w model_version_local_dpath
          then os_makedirs model_version_local_dpath else returns None)
         (\<lambda>_. returns (model_version_local_dpath,
                        os_path_join model_version_local_dpath ''model'')) w)"

text \<open>\<^verbatim>\<open>model_versions.append(model_version)\<close>; only a list has \<^verbatim>\<open>append\<close>.\<close>

definition append_version :: "json \<Rightarrow> string \<Rightarrow> ('w, json) action" where
  "append_version model_versions model_version =
     (case model_versions of
        JArr vs \<Rightarrow> returns (JArr (vs @ [JStr model_version]))
      | _ \<Rightarrow> raises AttributeError)"

definition log_model_version_from_local ::
  "client \<Rightarrow> string \<Rightarrow> string \<Rightarrow> string \<Rightarrow> string \<Rightarrow> (('a, 'm) world, unit) action" where
  "log_model_version_from_local self access_token model_name model_version
       model_version_local_dpath =
     and_then (push_directory access_token (repo_name self) model_version_local_dpath
                 (model_remote_path self model_name (Some model_version) None) 120) (\<lambda>_.
     and_then (get_version_list self model_name) (\<lambda>model_versions.
     and_then (append_version model_versions model_version) (\<lambda>model_versions'.
       log_json_artifact self access_token model_versions' ''versions'' model_name None)))"

definition log_model_version ::
  "client \<Rightarrow> string \<Rightarrow> 'm \<Rightarrow> string \<Rightarrow> string \<Rightarrow> (('a, 'm) world, unit) action" where
  "log_model_version self access_token pickable_model model_name model_version =
     and_then (make_model_version_local_paths model_version)
       (\<lambda>(model_version_local_dpath, model_version_local_fpath).
     and_then (save pickable_model model_version_local_fpath) (\<lambda>_.
     and_then (log_model_version_from_local self access_token model_name model_version
                 model_version_local_dpath) (\<lambda>_.
       shutil_rmtree (Some model_version_local_dpath))))"

text \<open>
  The version list of a model as the remote store holds it, and whether the content of
  a version is there: the serialized model under the version's directory.
\<close>

definition listed_versions :: "client \<Rightarrow> string \<Rightarrow> ('a, 'm) world \<Rightarrow> string list" where
  "listed_versions self model_name w =
     (case map_of (remote w) (model_remote_path self model_name None (Some ''versions.json'')) of
        Some (Json (JArr vs)) \<Rightarrow> List.map_filter (\<lambda>j. case j of JStr v \<Rightarrow> Some v | _ \<Rightarrow> None) vs
      | _ \<Rightarrow> [])"

definition version_content :: "client \<Rightarrow> string \<Rightarrow> string \<Rightarrow> ('a, 'm) world \<Rightarrow> bool" where
  "version_content self model_name model_version w =
     (map_of (remote w) (model_remote_path self model_name (Some model_version) (Some ''model''))
        \<noteq> None)"

section \<open>Example data\<close>

text \<open>
  A client of the registry \<open>registry\<close>, an empty world, and tables with one value column:
  a stored series with the keys 1, 2 and 3, all of version 10; a new series on the stored
  key 2; a new series on the fresh keys 4 and 5, with a period index, no index name and
  an integer column label.
\<close>

definition example_client :: client where
  "example_client =
     \<lparr> user_name = ''acct'', repo_name = ''models'', registry_dpath = Some ''registry'' \<rparr>"

definition example_world :: "(string, string) world" where
  "example_world =
     \<lparr> remote = [], files = [], dirs = [], cwd = ''/home/work'', faults = [] \<rparr>"

definition example_prior :: "(stamp \<times> string) frame" where
  "example_prior =
     \<lparr> index_name = Some ''date'', index_kind = DatetimeIndex,
       columns = [StrLabel ''y'', StrLabel ''version_timestamp''],
       rows = [(1, Some 10, ''a1''), (2, Some 10, ''a2''), (3, Some 10, ''a3'')] \<rparr>"

definition example_overlap :: "string frame" where
  "example_overlap =
     \<lparr> index_name = None, index_kind = DatetimeIndex, columns = [StrLabel ''y''],
       rows = [(2, ''b2'')] \<rparr>"

definition example_disjoint :: "string frame" where
  "example_disjoint =
     \<lparr> index_name = None, index_kind = PeriodIndex, columns = [IntLabel 0],
       rows = [(4, ''b4''), (5, ''b5'')] \<rparr>"

text \<open>The world with the stored series, and the world with one registered version.\<close>

definition example_stored :: "(string, string) world" where
  "example_stored =
     example_world \<lparr> remote := [(''registry/m/backtest.csv'', Csv example_prior)] \<rparr>"

definition example_registered :: "(string, string) world" where
  "example_registered =
     example_world \<lparr> remote := [(''registry/m/versions.json'', Json (JArr [JStr ''v0''])),
                                 (''registry/m/v0/model'', Pickled ''weights0'')] \<rparr>"

section \<open>Paths\<close>

lemma model_remote_path_root:
  "model_remote_path self m v a =
     (case registry_dpath self of None \<Rightarrow> [] | Some r \<Rightarrow> r @ ''/'') @ m @
     (case v of None \<Rightarrow> [] | Some x \<Rightarrow> ''/'' @ x) @
     (case a of None \<Rightarrow> [] | Some y \<Rightarrow> ''/'' @ y)"
  by (simp add: model_remote_path_def List.map_filter_simps split: option.splits)

lemma version_path_split:
  "model_remote_path self m (Some v) (Some a) = model_remote_path self m (Some v) None @ ''/'' @ a"
  by (simp add: model_remote_path_root)

lemma example_path [simp]:
  "model_remote_path example_client m v a =
     ''registry/'' @ m @ (case v of None \<Rightarrow> [] | Some x \<Rightarrow> ''/'' @ x) @
     (case a of None \<Rightarrow> [] | Some y \<Rightarrow> ''/'' @ y)"
  by (simp add: model_remote_path_root example_client_def)

lemma strip_prefix_Some: "strip_prefix xs ys = Some r \<longleftrightarrow> ys = xs @ r"
  by (induction xs ys rule: strip_prefix.induct) auto

lemma strip_prefix_append [simp]: "strip_prefix xs (xs @ r) = Some r"
  by (simp add: strip_prefix_Some)

lemma takeWhile_segment:
  "CHR ''/'' \<notin> set name \<Longrightarrow>
     takeWhile (\<lambda>c. c \<noteq> CHR ''/'') (rev name @ rest)
       = rev name @ takeWhile (\<lambda>c. c \<noteq> CHR ''/'') rest"
  by (rule takeWhile_append2) auto

lemma basename_dir_prefix:
  assumes "CHR ''/'' \<notin> set name"
  shows "basename (dir_prefix d @ name) = name"
proof -
  have "takeWhile (\<lambda>c. c \<noteq> CHR ''/'') (rev (dir_prefix d)) = []"
    by (cases d rule: rev_cases) (auto simp: dir_prefix_def)
  then show ?thesis
    using takeWhile_segment [OF assms, of "rev (dir_prefix d)"] by (simp add: basename_def)
qed

lemma basename_join:
  "CHR ''/'' \<notin> set name \<Longrightarrow> basename (os_path_join d name) = name"
  using basename_dir_prefix [of name d] by (cases name) (auto simp: os_path_join_def)

lemma relative_to_join:
  "CHR ''/'' \<notin> set name \<Longrightarrow> relative_to d (os_path_join d name) = Some name"
  using strip_prefix_append [of "dir_prefix d" name]
  by (cases name) (auto simp: os_path_join_def relative_to_def simp del: strip_prefix_append)

lemma backtest_path:
  "model_remote_path self m None None @ ''/'' @ basename (os_path_join d ''backtest.csv'')
     = model_remote_path self m None (Some ''backtest.csv'')"
  by (simp add: basename_join model_remote_path_root)

section \<open>The merge, row by row\<close>

lemma override_mask_map:
  "override_mask prior new vt =
     map (\<lambda>(k, t, r). k \<in> set (index new) \<and> stamp_gt t vt \<and> key_lt k t) prior"
  by (induction prior)
     (force simp: override_mask_def series_and_def isin_def index_def version_timestamps_def)+

lemma iloc_set_selected:
  "iloc_set prior (map sel prior)
     (map g (map fst (filter snd (zip (map fst prior) (map sel prior)))))
   = map (\<lambda>row. if sel row then g (fst row) else row) prior"
  by (induction prior) auto

lemma selected_keys_empty:
  "(filter snd (zip (map fst prior) (map sel prior)) = []) = (\<forall>row \<in> set prior. \<not> sel row)"
  by (induction prior) auto

lemma setitem_mask_map:
  "setitem_mask na prior (map sel prior) val =
     (if (\<exists>row \<in> set prior. sel row) \<and> \<not> distinct (index val) then Inl ValueError
      else Inr (map (\<lambda>row. if sel row
                     then (fst row, case map_of val (fst row) of Some r \<Rightarrow> r | None \<Rightarrow> na)
                     else row) prior))"
  using iloc_set_selected [of prior sel "\<lambda>k. (k, case map_of val k of Some r \<Rightarrow> r | None \<Rightarrow> na)"]
  by (auto simp: setitem_mask_def reindex_def index_def selected_keys_empty)

lemma override_values_map:
  "override_values na prior new vt =
     (if (\<exists>(k, t, r) \<in> set prior. k \<in> set (index new) \<and> stamp_gt t vt \<and> key_lt k t)
         \<and> \<not> distinct (index new)
      then Inl ValueError
      else Inr (map (\<lambda>(k, t, r).
                  if k \<in> set (index new) \<and> stamp_gt t vt \<and> key_lt k t
                  then (k, case map_of new k of Some x \<Rightarrow> x | None \<Rightarrow> (None, na))
                  else (k, t, r)) prior))"
  by (auto simp: override_values_def override_mask_map setitem_mask_map split: prod.splits
           intro!: map_cong)


lemma rows_normalize:
  "rows (normalize_backtest f v) = map (\<lambda>(k, r). (k, normalize_version_timestamp f v, r)) (rows f)"
  by (simp add: normalize_backtest_def set_column_version_timestamp_def Let_def)

lemma index_stamped: "index (map (\<lambda>(k, r). (k, t, r)) rs) = index rs"
  by (induction rs) (auto simp: index_def)


lemma new_keys_only_filter:
  "new_keys_only new prior = filter (\<lambda>row. fst row \<notin> set (index prior)) new"
  by (induction new) (auto simp: new_keys_only_def isin_def index_def)



lemma index_override:
  "override_values na prior new vt = Inr prior' \<Longrightarrow> index prior' = index prior"
  by (auto simp: override_values_map index_def split: if_splits)

lemma merge_backtest_rows:
  assumes "merge_backtest na prior new vt = Inr result"
  shows "\<exists>prior'. override_values na (rows prior) (rows new) vt = Inr prior'
           \<and> rows result =
               sort_key fst (prior' @ filter (\<lambda>row. fst row \<notin> set (index (rows prior))) (rows new))"
  using assms
  by (auto simp: merge_backtest_def concat_sorted_def new_keys_only_filter
           dest: index_override split: sum.splits)

lemma override_disjoint:
  assumes "set (index prior) \<inter> set (index new) = {}"
  shows "override_values na prior new vt = Inr prior"
proof -
  have "\<And>k t r. (k, t, r) \<in> set prior \<Longrightarrow> k \<notin> set (index new)"
    using assms by (force simp: index_def)
  then show ?thesis
    by (auto simp: override_values_map intro!: map_idI)
qed

lemma merge_appends_new_keys_sorted:
  assumes "merge_backtest na prior new vt = Inr result"
  shows "sorted (index (rows result))
         \<and> length (rows result)
             = length (rows prior)
               + length (filter (\<lambda>row. fst row \<notin> set (index (rows prior))) (rows new))
         \<and> (\<forall>row \<in> set (rows new). fst row \<notin> set (index (rows prior)) \<longrightarrow> row \<in> set (rows result))
         \<and> (set (index (rows prior)) \<inter> set (index (rows new)) = {} \<longrightarrow>
              rows result = sort_key fst (rows prior @ rows new))"
proof -
  from merge_backtest_rows [OF assms] obtain prior' where
    ov: "override_values na (rows prior) (rows new) vt = Inr prior'" and
    rs: "rows result =
           sort_key fst (prior' @ filter (\<lambda>row. fst row \<notin> set (index (rows prior))) (rows new))"
    by blast
  have len: "length prior' = length (rows prior)"
    using index_override [OF ov] by (metis index_def length_map)
  have "sorted (index (rows result))"
    by (simp add: rs index_def)
  moreover have "length (rows result) = length (rows prior)
      + length (filter (\<lambda>row. fst row \<notin> set (index (rows prior))) (rows new))"
    by (simp add: rs len)
  moreover have "\<forall>row \<in> set (rows new).
      fst row \<notin> set (index (rows prior)) \<longrightarrow> row \<in> set (rows result)"
    by (simp add: rs)
  moreover have "set (index (rows prior)) \<inter> set (index (rows new)) = {} \<longrightarrow>
      rows result = sort_key fst (rows prior @ rows new)"
  proof
    assume d: "set (index (rows prior)) \<inter> set (index (rows new)) = {}"
    then have "prior' = rows prior" using ov override_disjoint [OF d, of na vt] by simp
    moreover have "filter (\<lambda>row. fst row \<notin> set (index (rows prior))) (rows new) = rows new"
      using d by (auto simp: index_def filter_id_conv)
    ultimately show "rows result = sort_key fst (rows prior @ rows new)" by (simp add: rs)
  qed
  ultimately show ?thesis by blast
qed

section \<open>What each operation does to the world\<close>

lemma filter_other_paths [simp]:
  "map_of (filter (\<lambda>(p, _). p \<noteq> path) fs) path = None"
  by (induction fs) auto

lemma log_artifact_run:
  "log_artifact self tok fpath m v w =
     (case next_fault w of
        Some e \<Rightarrow> (Inl e, w\<lparr>faults := tl (faults w)\<rparr>)
      | None \<Rightarrow>
          (case map_of (files w) fpath of
             None \<Rightarrow> (Inl FileNotFoundError, w\<lparr>faults := tl (faults w)\<rparr>)
           | Some c \<Rightarrow>
               (Inr (), w\<lparr>faults := tl (faults w),
                          remote := (model_remote_path self m v None @ ''/'' @ basename fpath, c)
                                      # remote w\<rparr>)))"
  by (simp add: log_artifact_def push_files_def and_then_def attempt_def
           split: option.splits)

lemma log_json_artifact_run:
  "log_json_artifact self tok j name m v w =
     (let temp = os_path_join (cwd w) (name @ ''.json'') in
      if temp \<in> set (dirs w) then (Inl IsADirectoryError, w)
      else (case next_fault w of
              Some e \<Rightarrow>
                (Inl e, w\<lparr>files := (temp, Json j) # filter (\<lambda>(p, _). p \<noteq> temp) (files w),
                          faults := tl (faults w)\<rparr>)
            | None \<Rightarrow>
                (Inr (), w\<lparr>files := filter (\<lambda>(p, _). p \<noteq> temp) (files w),
                           faults := tl (faults w),
                           remote := (model_remote_path self m v None @ ''/'' @ basename temp, Json j)
                                       # remote w\<rparr>)))"
  by (simp add: log_json_artifact_def and_then_def os_getcwd_def write_file_def Let_def
        log_artifact_run next_fault_def os_remove_def split: option.splits)

lemma log_pandas_artifact_run:
  "log_pandas_artifact self tok f name m v w =
     (let temp = os_path_join (cwd w) (name @ ''.csv'') in
      if temp \<in> set (dirs w) then (Inl IsADirectoryError, w)
      else (case next_fault w of
              Some e \<Rightarrow>
                (Inl e, w\<lparr>files := (temp, Csv f) # filter (\<lambda>(p, _). p \<noteq> temp) (files w),
                          faults := tl (faults w)\<rparr>)
            | None \<Rightarrow>
                (Inr (), w\<lparr>files := filter (\<lambda>(p, _). p \<noteq> temp) (files w),
                           faults := tl (faults w),
                           remote := (model_remote_path self m v None @ ''/'' @ basename temp, Csv f)
                                       # remote w\<rparr>)))"
  by (simp add: log_pandas_artifact_def and_then_def os_getcwd_def write_file_def Let_def
        log_artifact_run next_fault_def os_remove_def split: option.splits)

lemma log_pandas_artifact_stored:
  assumes "log_pandas_artifact self tok f ''backtest'' m None w = (Inr (), w')"
  shows "map_of (remote w') (model_remote_path self m None (Some ''backtest.csv'')) = Some (Csv f)"
  using assms backtest_path [of self m "cwd w"]
  by (auto simp: log_pandas_artifact_run Let_def split: if_splits option.splits)

lemma get_model_backtest_run:
  "get_model_backtest self m w =
     (case next_fault w of
        Some e \<Rightarrow> (Inl e, w\<lparr>faults := tl (faults w)\<rparr>)
      | None \<Rightarrow>
          (case map_of (remote w) (model_remote_path self m None (Some ''backtest.csv'')) of
             None \<Rightarrow> (Inl NotFound, w\<lparr>faults := tl (faults w)\<rparr>)
           | Some (Csv f) \<Rightarrow>
               (Inr (f\<lparr>index_name :=
                          (case index_name f of None \<Rightarrow> Some ''Unnamed: 0'' | Some n \<Rightarrow> Some n),
                        index_kind := DatetimeIndex\<rparr>),
                w\<lparr>faults := tl (faults w)\<rparr>)
           | Some _ \<Rightarrow> (Inl ParserError, w\<lparr>faults := tl (faults w)\<rparr>)))"
  by (simp add: get_model_backtest_def get_pandas_artifact_def pd_read_csv_def and_then_def
        attempt_def lookup_remote_def web_remote_fpath_def returns_def raises_def
        split: option.splits content.splits)

lemma push_directory_run:
  "push_directory tok repo from_dpath to_dpath t w =
     (case next_fault w of
        Some e \<Rightarrow> (Inl e, w\<lparr>faults := tl (faults w)\<rparr>)
      | None \<Rightarrow>
          if from_dpath \<notin> set (dirs w) then (Inl FileNotFoundError, w\<lparr>faults := tl (faults w)\<rparr>)
          else (Inr (),
                w\<lparr>faults := tl (faults w),
                  remote := pushed_entries from_dpath to_dpath (files w) @ remote w\<rparr>))"
  by (simp add: push_directory_def and_then_def attempt_def split: option.splits)

lemma get_version_list_run:
  "get_version_list self m w =
     (case next_fault w of
        Some e \<Rightarrow> (Inl e, w\<lparr>faults := tl (faults w)\<rparr>)
      | None \<Rightarrow>
          (case map_of (remote w) (model_remote_path self m None (Some ''versions.json'')) of
             None \<Rightarrow> (Inl NotFound, w\<lparr>faults := tl (faults w)\<rparr>)
           | Some (Json j) \<Rightarrow> (Inr j, w\<lparr>faults := tl (faults w)\<rparr>)
           | Some _ \<Rightarrow> (Inl JSONDecodeError, w\<lparr>faults := tl (faults w)\<rparr>)))"
  by (simp add: get_version_list_def get_json_artifact_def read_remote_file_def and_then_def
        attempt_def lookup_remote_def json_loads_def returns_def raises_def
        split: option.splits content.splits)

lemma get_model_version_run:
  "get_model_version self m v w =
     (if os_path_exists w (os_path_join (cwd w) ''temp_model_version'')
      then (Inl FileExistsError, w)
      else (case next_fault w of
              Some e \<Rightarrow>
                (Inl e, w\<lparr>dirs := os_path_join (cwd w) ''temp_model_version'' # dirs w,
                          faults := tl (faults w)\<rparr>)
            | None \<Rightarrow>
                (Inl (if List.map_filter
                           (\<lambda>(p, c). map_option (\<lambda>rel. (rel, c))
                              (strip_prefix (model_remote_path self m (Some v) None @ ''/'') p))
                           (remote w) = []
                      then NotFound else TypeError),
                 w\<lparr>dirs := os_path_join (cwd w) ''temp_model_version'' # dirs w,
                   faults := tl (faults w)\<rparr>)))"
  by (simp add: get_model_version_def and_then_def os_getcwd_def os_mkdir_def
        pull_directory_def attempt_def Let_def os_path_join_object_def raises_def
        next_fault_def split: option.splits list.splits)

text \<open>
  \<open>os.mkdir\<close> returns \<^verbatim>\<open>None\<close>, and \<open>get_model_version\<close> uses that result as the local
  directory: whatever the world, the call ends in an exception and returns no model.
\<close>

lemma get_model_version_always_raises:
  "\<exists>e. fst (get_model_version self m v w) = Inl e"
  by (simp add: get_model_version_run split: option.splits)

lemmas example_defs =
  example_stored_def example_world_def example_prior_def example_overlap_def
  example_disjoint_def example_registered_def

lemmas run_defs =
  log_model_backtest_def get_model_backtest_run log_pandas_artifact_run log_json_artifact_run
  Let_def next_fault_def merge_backtest_def override_values_def override_mask_def
  setitem_mask_def reindex_def isin_def series_and_def index_def version_timestamps_def
  concat_sorted_def new_keys_only_def normalize_backtest_def
  set_column_version_timestamp_def normalize_version_timestamp_def index_max_def
  os_path_join_def dir_prefix_def basename_def

lemmas version_run_defs =
  log_model_version_def make_model_version_local_paths_def and_then_def os_getcwd_def
  os_path_exists_def os_makedirs_def returns_def save_def write_file_def
  log_model_version_from_local_def push_directory_run get_version_list_run
  append_version_def shutil_rmtree_def pushed_entries_def relative_to_def
  List.map_filter_simps

section \<open>Logging a version: what reaches the remote store\<close>

lemma from_local_remote:
  "(remote (snd (log_model_version_from_local self tok m v dpath w)) = remote w
      \<and> fst (log_model_version_from_local self tok m v dpath w) \<noteq> Inr ())
   \<or> (remote (snd (log_model_version_from_local self tok m v dpath w))
        = pushed_entries dpath (model_remote_path self m (Some v) None) (files w) @ remote w
      \<and> fst (log_model_version_from_local self tok m v dpath w) \<noteq> Inr ()
      \<and> dpath \<in> set (dirs w))
   \<or> (\<exists>vs. map_of (pushed_entries dpath (model_remote_path self m (Some v) None) (files w)
                      @ remote w)
                (model_remote_path self m None (Some ''versions.json''))
                  = Some (Json (JArr vs))
          \<and> remote (snd (log_model_version_from_local self tok m v dpath w))
               = (model_remote_path self m None (Some ''versions.json''),
                  Json (JArr (vs @ [JStr v])))
                 # pushed_entries dpath (model_remote_path self m (Some v) None) (files w)
                 @ remote w
          \<and> fst (log_model_version_from_local self tok m v dpath w) = Inr ()
          \<and> dirs (snd (log_model_version_from_local self tok m v dpath w)) = dirs w
          \<and> dpath \<in> set (dirs w))"
  by (simp add: log_model_version_from_local_def and_then_def push_directory_run
      get_version_list_run append_version_def log_json_artifact_run Let_def returns_def
      raises_def next_fault_def basename_join model_remote_path_root
      split: option.splits list.splits content.splits json.splits)

lemma pushed_entries_key:
  "map_of (pushed_entries d t fs) k = Some c \<Longrightarrow> \<exists>rel. k = t @ ''/'' @ rel"
  by (induction fs)
     (auto simp: pushed_entries_def List.map_filter_simps split: option.splits if_splits)

lemma versions_path_not_pushed:
  "map_of (pushed_entries d (model_remote_path self m (Some v) None) fs)
     (model_remote_path self m None (Some ''versions.json'')) = None"
proof (rule ccontr)
  assume "\<not> ?thesis"
  then obtain c rel where
    "model_remote_path self m None (Some ''versions.json'')
       = model_remote_path self m (Some v) None @ ''/'' @ rel"
    using pushed_entries_key by fastforce
  then have "''versions.json'' = v @ ''/'' @ rel"
    by (simp add: model_remote_path_root)
  then have "CHR ''/'' \<in> set ''versions.json''"
    by (metis in_set_conv_decomp append_Cons append_Nil)
  then show False by simp
qed

lemma pushed_entries_head:
  "relative_to d p = Some rel \<Longrightarrow>
     map_of (pushed_entries d t ((p, c) # fs)) (t @ ''/'' @ rel) = Some c"
  by (simp add: pushed_entries_def List.map_filter_simps)

lemma remote_shutil_rmtree [simp]: "remote (snd (shutil_rmtree p w)) = remote w"
  by (simp add: shutil_rmtree_def split: option.splits)

lemma log_model_version_remote:
  fixes w :: "('a, 'm) world"
  shows
  "\<exists>fs. (remote (snd (log_model_version self tok obj m v w)) = remote w
          \<and> fst (log_model_version self tok obj m v w) \<noteq> Inr ())
     \<or> (remote (snd (log_model_version self tok obj m v w))
          = pushed_entries (os_path_join (cwd w) v) (model_remote_path self m (Some v) None)
              ((os_path_join (os_path_join (cwd w) v) ''model'', Pickled obj) # fs) @ remote w
        \<and> fst (log_model_version self tok obj m v w) \<noteq> Inr ())
     \<or> (\<exists>vs. map_of (pushed_entries (os_path_join (cwd w) v)
                        (model_remote_path self m (Some v) None)
                        ((os_path_join (os_path_join (cwd w) v) ''model'', Pickled obj) # fs)
                      @ remote w)
                  (model_remote_path self m None (Some ''versions.json''))
                = Some (Json (JArr vs))
           \<and> remote (snd (log_model_version self tok obj m v w))
               = (model_remote_path self m None (Some ''versions.json''),
                  Json (JArr (vs @ [JStr v])))
                 # pushed_entries (os_path_join (cwd w) v)
                     (model_remote_path self m (Some v) None)
                     ((os_path_join (os_path_join (cwd w) v) ''model'', Pickled obj) # fs)
                 @ remote w
           \<and> fst (log_model_version self tok obj m v w) = Inr ())"
proof -
  define dpath where "dpath = os_path_join (cwd w) v"
  define fpath where "fpath = os_path_join dpath ''model''"
  define w1 where "w1 = (if os_path_exists w dpath then w else w\<lparr>dirs := dpath # dirs w\<rparr>)"
  define w2 where
    "w2 = w1\<lparr>files := (fpath, Pickled obj) # filter (\<lambda>(p, _). p \<noteq> fpath) (files w1)\<rparr>"
  define out where "out = log_model_version_from_local self tok m v dpath w2"
  have paths: "make_model_version_local_paths v w = (Inr (dpath, fpath), w1)"
    by (simp add: make_model_version_local_paths_def and_then_def os_getcwd_def Let_def
          os_makedirs_def returns_def dpath_def fpath_def w1_def)
  have r2: "remote w2 = remote w"
    "files w2 = (fpath, Pickled obj) # filter (\<lambda>(p, _). p \<noteq> fpath) (files w)"
    by (simp_all add: w2_def w1_def)
  show ?thesis
  proof (cases "fpath \<in> set (dirs w1)")
    case True
    then have "log_model_version self tok obj m v w = (Inl IsADirectoryError, w1)"
      by (simp add: log_model_version_def and_then_def paths save_def write_file_def)
    then show ?thesis by (simp add: w1_def)
  next
    case False
    then have run: "log_model_version self tok obj m v w =
        (case out of (Inl e, w') \<Rightarrow> (Inl e, w')
                   | (Inr u, w') \<Rightarrow> shutil_rmtree (Some dpath) w')"
      by (simp add: log_model_version_def and_then_def paths save_def write_file_def
            w2_def out_def)
    show ?thesis
      using from_local_remote [of self tok m v dpath w2]
      unfolding out_def [symmetric] r2 run dpath_def [symmetric] fpath_def [symmetric]
      by (cases out; cases "fst out")
         (auto simp: map_add_def shutil_rmtree_def
               intro!: exI [of _ "filter (\<lambda>(p, _). p \<noteq> fpath) (files w)"])
  qed
qed

lemma map_filter_append:
  "List.map_filter f (xs @ ys) = List.map_filter f xs @ List.map_filter f ys"
  by (simp add: List.map_filter_def)

lemma map_of_Cons_keeps: "map_of r k \<noteq> None \<Longrightarrow> map_of (e # r) k \<noteq> None"
  by (cases e) auto

section \<open>The claims\<close>

subsection \<open>The overwrite condition\<close>



subsection \<open>The direction of the overwrite\<close>




subsection \<open>Which failures are caught\<close>




subsection \<open>The staging file\<close>

text \<open>
  C4, as the code has it. \<open>log_json_artifact\<close> and \<open>log_pandas_artifact\<close> remove the staging
  file \<open>name.json\<close> or \<open>name.csv\<close> after the push: when the call returns normally the file
  is gone. No step runs after a failed push: when the push raises \<open>e\<close>, the call raises \<open>e\<close>
  and the staging file stays on disk with what was written to it.
\<close>

theorem staging_file_removed_when_push_succeeds:
  "(fst (log_json_artifact self tok j a m ver w) = Inr () \<longrightarrow>
      map_of (files (snd (log_json_artifact self tok j a m ver w)))
        (os_path_join (cwd w) (a @ ''.json'')) = None)
   \<and> (fst (log_pandas_artifact self tok f a m ver w) = Inr () \<longrightarrow>
      map_of (files (snd (log_pandas_artifact self tok f a m ver w)))
        (os_path_join (cwd w) (a @ ''.csv'')) = None)
   \<and> (next_fault w = Some e \<and> os_path_join (cwd w) (a @ ''.json'') \<notin> set (dirs w) \<longrightarrow>
      fst (log_json_artifact self tok j a m ver w) = Inl e
      \<and> map_of (files (snd (log_json_artifact self tok j a m ver w)))
          (os_path_join (cwd w) (a @ ''.json'')) = Some (Json j))
   \<and> (next_fault w = Some e \<and> os_path_join (cwd w) (a @ ''.csv'') \<notin> set (dirs w) \<longrightarrow>
      fst (log_pandas_artifact self tok f a m ver w) = Inl e
      \<and> map_of (files (snd (log_pandas_artifact self tok f a m ver w)))
          (os_path_join (cwd w) (a @ ''.csv'')) = Some (Csv f))"
  by (auto simp: log_json_artifact_run log_pandas_artifact_run Let_def split: option.splits)

theorem staging_file_removed_when_push_succeeds_witness:
  "fst (log_json_artifact example_client ''token'' (JArr []) ''versions'' ''m'' None example_world)
     = Inr ()
   \<and> map_of (files (snd (log_json_artifact example_client ''token'' (JArr []) ''versions'' ''m''
                None example_world)))
        (os_path_join (cwd example_world) (''versions'' @ ''.json'')) = None
   \<and> os_path_join (cwd example_world) (''versions'' @ ''.json'') = ''/home/work/versions.json''
   \<and> map_of (remote (snd (log_json_artifact example_client ''token'' (JArr []) ''versions'' ''m''
                None example_world))) ''registry/m/versions.json'' = Some (Json (JArr []))"
proof -
  have ok: "fst (log_json_artifact example_client ''token'' (JArr []) ''versions'' ''m'' None
      example_world) = Inr ()"
    by (simp add: run_defs example_defs)
  show ?thesis
    using staging_file_removed_when_push_succeeds
      [of example_client "''token''" "JArr []" "''versions''" "''m''" None example_world
          example_prior Transport] ok
    by (simp add: run_defs example_defs)
qed

text \<open>
  The claim as stated fails: the push fails in transport, the call raises, and the
  staging file is still on disk.
\<close>

theorem staging_file_survives_failed_push:
  "fst (log_json_artifact example_client ''token'' (JArr []) ''versions'' ''m'' None
          (example_world \<lparr> faults := [Some Transport] \<rparr>)) = Inl Transport
   \<and> map_of (files (snd (log_json_artifact example_client ''token'' (JArr []) ''versions'' ''m''
                None (example_world \<lparr> faults := [Some Transport] \<rparr>))))
        ''/home/work/versions.json''
      = Some (Json (JArr []))
   \<and> fst (log_pandas_artifact example_client ''token'' example_prior ''backtest'' ''m'' None
          (example_world \<lparr> faults := [Some Transport] \<rparr>)) = Inl Transport
   \<and> map_of (files (snd (log_pandas_artifact example_client ''token'' example_prior ''backtest''
                ''m'' None (example_world \<lparr> faults := [Some Transport] \<rparr>))))
        ''/home/work/backtest.csv''
      = Some (Csv example_prior)"
  by (simp add: run_defs example_defs)

subsection \<open>Fetching a version\<close>

text \<open>
  C5, as the code has it. \<open>get_model_version\<close> makes the local directory
  \<open>temp_model_version\<close> under the working directory, raising \<^verbatim>\<open>FileExistsError\<close> and doing
  nothing else when the path exists, and then pulls the remote version directory. No
  step runs after a failure: when the pull fails with \<open>e\<close> the call raises \<open>e\<close>, and on
  every failing exit the directory is still on disk.
\<close>

theorem temp_directory_left_when_get_model_version_fails:
  "(os_path_exists w (os_path_join (cwd w) ''temp_model_version'') \<longrightarrow>
      get_model_version self m v w = (Inl FileExistsError, w))
   \<and> (\<not> os_path_exists w (os_path_join (cwd w) ''temp_model_version'')
        \<and> next_fault w = Some e \<longrightarrow>
      fst (get_model_version self m v w) = Inl e
      \<and> os_path_join (cwd w) ''temp_model_version''
          \<in> set (dirs (snd (get_model_version self m v w))))
   \<and> (fst (get_model_version self m v w) = Inl e' \<longrightarrow>
        os_path_exists (snd (get_model_version self m v w))
          (os_path_join (cwd w) ''temp_model_version''))"
  by (auto simp: get_model_version_run os_path_exists_def split: option.splits)

theorem temp_directory_left_when_get_model_version_fails_witness:
  "\<not> os_path_exists (example_registered \<lparr> faults := [Some Timeout] \<rparr>)
        (os_path_join (cwd (example_registered \<lparr> faults := [Some Timeout] \<rparr>))
           ''temp_model_version'')
   \<and> next_fault (example_registered \<lparr> faults := [Some Timeout] \<rparr>) = Some Timeout
   \<and> fst (get_model_version example_client ''m'' ''v0''
            (example_registered \<lparr> faults := [Some Timeout] \<rparr>)) = Inl Timeout
   \<and> ''/home/work/temp_model_version''
       \<in> set (dirs (snd (get_model_version example_client ''m'' ''v0''
                          (example_registered \<lparr> faults := [Some Timeout] \<rparr>))))"
proof -
  have fresh: "\<not> os_path_exists (example_registered \<lparr> faults := [Some Timeout] \<rparr>)
        (os_path_join (cwd (example_registered \<lparr> faults := [Some Timeout] \<rparr>))
           ''temp_model_version'')"
    by (simp add: os_path_exists_def example_defs)
  have nf: "next_fault (example_registered \<lparr> faults := [Some Timeout] \<rparr>) = Some Timeout"
    by (simp add: next_fault_def)
  show ?thesis
    using temp_directory_left_when_get_model_version_fails
      [of "example_registered \<lparr> faults := [Some Timeout] \<rparr>" example_client "''m''" "''v0''"
          Timeout Timeout] fresh nf
    by (simp add: example_defs os_path_join_def dir_prefix_def)
qed

text \<open>
  The claim as stated fails: the version \<open>v0\<close> is registered, the pull times out, the
  call raises, and the directory is still on disk.
\<close>

theorem temp_directory_survives_failed_pull:
  "map_of (remote (example_registered \<lparr> faults := [Some Timeout] \<rparr>)) ''registry/m/v0/model''
     = Some (Pickled ''weights0'')
   \<and> dirs (example_registered \<lparr> faults := [Some Timeout] \<rparr>) = []
   \<and> fst (get_model_version example_client ''m'' ''v0''
            (example_registered \<lparr> faults := [Some Timeout] \<rparr>)) = Inl Timeout
   \<and> dirs (snd (get_model_version example_client ''m'' ''v0''
            (example_registered \<lparr> faults := [Some Timeout] \<rparr>)))
      = [''/home/work/temp_model_version'']"
  by (simp add: get_model_version_run os_path_exists_def next_fault_def example_defs
        os_path_join_def dir_prefix_def List.map_filter_simps)

subsection \<open>Path addressing\<close>

text \<open>
  C6. \<open>model_remote_path\<close> joins with \<open>/\<close> the segments that are present, whatever
  the root, the version and the artifact name: an absent segment leaves nothing behind,
  not even an empty segment. With a registry root \<open>root\<close> the path is \<open>root/m\<close>,
  \<open>root/m/v1\<close> with a version, \<open>root/m/v1/a\<close> with a version and an artifact, and \<open>root/m/a\<close>
  with an artifact and no version.
\<close>

theorem model_remote_path_cases:
  "model_remote_path self m v a =
     (case registry_dpath self of None \<Rightarrow> [] | Some r \<Rightarrow> r @ ''/'') @ m @
     (case v of None \<Rightarrow> [] | Some x \<Rightarrow> ''/'' @ x) @
     (case a of None \<Rightarrow> [] | Some y \<Rightarrow> ''/'' @ y)
   \<and> model_remote_path (self\<lparr>registry_dpath := Some root\<rparr>) m None None = root @ ''/'' @ m
   \<and> model_remote_path (self\<lparr>registry_dpath := Some root\<rparr>) m (Some v1) None
       = root @ ''/'' @ m @ ''/'' @ v1
   \<and> model_remote_path (self\<lparr>registry_dpath := Some root\<rparr>) m (Some v1) (Some a1)
       = root @ ''/'' @ m @ ''/'' @ v1 @ ''/'' @ a1
   \<and> model_remote_path (self\<lparr>registry_dpath := Some root\<rparr>) m None (Some a1)
       = root @ ''/'' @ m @ ''/'' @ a1"
  by (simp add: model_remote_path_root)

subsection \<open>Push before listing\<close>

text \<open>
  C7. \<open>log_model_version\<close> pushes the version directory before it touches the version
  list. Whatever failures the remote store meets and wherever they fall, if every listed
  version has its content before the call, every listed version has its content after
  it; the list gains nothing but the new version; a call that returns normally has
  listed the version; and a call that raises leaves the list as it was, so a failure
  between the push and the update of the list leaves the version pushed and not listed.
\<close>

theorem version_pushed_before_listed:
  fixes w :: "('a, 'm) world"
  assumes inv: "\<forall>u \<in> set (listed_versions self m w). version_content self m u w"
  shows "(\<forall>u \<in> set (listed_versions self m (snd (log_model_version self tok obj m v w))).
            version_content self m u (snd (log_model_version self tok obj m v w)))
       \<and> set (listed_versions self m (snd (log_model_version self tok obj m v w)))
           \<subseteq> insert v (set (listed_versions self m w))
       \<and> (fst (log_model_version self tok obj m v w) = Inr () \<longrightarrow>
            v \<in> set (listed_versions self m (snd (log_model_version self tok obj m v w))))
       \<and> (fst (log_model_version self tok obj m v w) \<noteq> Inr () \<longrightarrow>
            listed_versions self m (snd (log_model_version self tok obj m v w))
              = listed_versions self m w)"
proof -
  define w' where "w' = snd (log_model_version self tok obj m v w)"
  define dpath where "dpath = os_path_join (cwd w) v"
  define vpath where "vpath = model_remote_path self m None (Some ''versions.json'')"
  define to_dpath where "to_dpath = model_remote_path self m (Some v) None"
  obtain fs where cases3:
    "(remote w' = remote w \<and> fst (log_model_version self tok obj m v w) \<noteq> Inr ())
     \<or> (remote w' = pushed_entries dpath to_dpath
                       ((os_path_join dpath ''model'', Pickled obj) # fs) @ remote w
        \<and> fst (log_model_version self tok obj m v w) \<noteq> Inr ())
     \<or> (\<exists>vs. map_of (pushed_entries dpath to_dpath
                        ((os_path_join dpath ''model'', Pickled obj) # fs) @ remote w) vpath
                = Some (Json (JArr vs))
           \<and> remote w' = (vpath, Json (JArr (vs @ [JStr v])))
                 # pushed_entries dpath to_dpath
                     ((os_path_join dpath ''model'', Pickled obj) # fs)
                 @ remote w
           \<and> fst (log_model_version self tok obj m v w) = Inr ())"
    using log_model_version_remote [of self tok obj m v w]
    unfolding w'_def dpath_def vpath_def to_dpath_def by blast
  define P where
    "P = pushed_entries dpath to_dpath ((os_path_join dpath ''model'', Pickled obj) # fs)"
  have P_vpath: "map_of P vpath = None"
    unfolding P_def vpath_def to_dpath_def by (rule versions_path_not_pushed)
  have P_model: "map_of P (model_remote_path self m (Some v) (Some ''model'')) \<noteq> None"
  proof -
    have "relative_to dpath (os_path_join dpath ''model'') = Some ''model''"
      by (simp add: relative_to_join)
    then have "map_of P (to_dpath @ ''/'' @ ''model'') = Some (Pickled obj)"
      unfolding P_def by (rule pushed_entries_head)
    then show ?thesis
      by (simp add: to_dpath_def version_path_split)
  qed
  have keep: "\<And>u. version_content self m u w \<Longrightarrow> map_of (P @ remote w)
      (model_remote_path self m (Some u) (Some ''model'')) \<noteq> None"
    by (auto simp: version_content_def map_add_def split: option.splits)
  from cases3 consider
      (unchanged) "remote w' = remote w" "fst (log_model_version self tok obj m v w) \<noteq> Inr ()"
    | (unlisted) "remote w' = P @ remote w" "fst (log_model_version self tok obj m v w) \<noteq> Inr ()"
    | (listed) vs where "map_of (P @ remote w) vpath = Some (Json (JArr vs))"
        "remote w' = (vpath, Json (JArr (vs @ [JStr v]))) # P @ remote w"
        "fst (log_model_version self tok obj m v w) = Inr ()"
    unfolding P_def by blast
  then have "(\<forall>u \<in> set (listed_versions self m w'). version_content self m u w')
       \<and> set (listed_versions self m w') \<subseteq> insert v (set (listed_versions self m w))
       \<and> (fst (log_model_version self tok obj m v w) = Inr () \<longrightarrow>
            v \<in> set (listed_versions self m w'))
       \<and> (fst (log_model_version self tok obj m v w) \<noteq> Inr () \<longrightarrow>
            listed_versions self m w' = listed_versions self m w)"
  proof cases
    case unchanged
    have "listed_versions self m w' = listed_versions self m w"
      by (simp add: listed_versions_def unchanged(1))
    moreover have "\<And>u. version_content self m u w' = version_content self m u w"
      by (simp add: version_content_def unchanged(1))
    ultimately show ?thesis
      using inv unchanged(2) by auto
  next
    case unlisted
    have "listed_versions self m w' = listed_versions self m w"
      using P_vpath by (simp add: listed_versions_def unlisted(1) map_add_def vpath_def)
    moreover have "\<And>u. version_content self m u w \<Longrightarrow> version_content self m u w'"
      using keep by (simp add: version_content_def unlisted(1))
    ultimately show ?thesis
      using inv unlisted(2) by auto
  next
    case (listed vs)
    have old: "map_of (remote w) vpath = Some (Json (JArr vs))"
      using listed(1) P_vpath by (simp add: map_add_def)
    have lw: "listed_versions self m w
        = List.map_filter (\<lambda>j. case j of JStr v \<Rightarrow> Some v | _ \<Rightarrow> None) vs"
      using old by (simp add: listed_versions_def vpath_def)
    have "listed_versions self m w'
        = List.map_filter (\<lambda>j. case j of JStr v \<Rightarrow> Some v | _ \<Rightarrow> None) (vs @ [JStr v])"
      by (simp add: listed_versions_def listed(2) vpath_def [symmetric])
    then have lw': "listed_versions self m w' = listed_versions self m w @ [v]"
      by (simp add: lw map_filter_append List.map_filter_simps)
    have "version_content self m u w'" if "u \<in> set (listed_versions self m w @ [v])" for u
    proof (cases "u \<in> set (listed_versions self m w)")
      case True
      then have "version_content self m u w"
        using inv by blast
      then have "map_of (P @ remote w) (model_remote_path self m (Some u) (Some ''model'')) \<noteq> None"
        by (rule keep)
      then show ?thesis
        unfolding version_content_def listed(2) by (rule map_of_Cons_keeps)
    next
      case False
      then have "u = v" using that by simp
      then have
        "map_of (P @ remote w) (model_remote_path self m (Some u) (Some ''model'')) \<noteq> None"
        using P_model by (auto simp: map_add_def split: option.splits)
      then show ?thesis
        unfolding version_content_def listed(2) by (rule map_of_Cons_keeps)
    qed
    then show ?thesis
      using listed(3) by (auto simp: lw')
  qed
  then show ?thesis
    unfolding w'_def .
qed

theorem version_pushed_before_listed_witness:
  "listed_versions example_client ''m'' example_registered = [''v0'']
   \<and> version_content example_client ''m'' ''v0'' example_registered
   \<and> fst (log_model_version example_client ''token'' ''weights1'' ''m'' ''v1'' example_registered)
      = Inr ()
   \<and> ''v1'' \<in> set (listed_versions example_client ''m''
        (snd (log_model_version example_client ''token'' ''weights1'' ''m'' ''v1''
                example_registered)))
   \<and> version_content example_client ''m'' ''v1''
        (snd (log_model_version example_client ''token'' ''weights1'' ''m'' ''v1''
                example_registered))
   \<and> fst (log_model_version example_client ''token'' ''weights1'' ''m'' ''v1''
            (example_registered \<lparr> faults := [None, Some Transport] \<rparr>)) = Inl Transport
   \<and> listed_versions example_client ''m''
        (snd (log_model_version example_client ''token'' ''weights1'' ''m'' ''v1''
                (example_registered \<lparr> faults := [None, Some Transport] \<rparr>))) = [''v0'']
   \<and> version_content example_client ''m'' ''v1''
        (snd (log_model_version example_client ''token'' ''weights1'' ''m'' ''v1''
                (example_registered \<lparr> faults := [None, Some Transport] \<rparr>)))"
proof -
  have l0: "listed_versions example_client ''m'' example_registered = [''v0'']"
    by (simp add: listed_versions_def example_defs List.map_filter_simps)
  have c0: "version_content example_client ''m'' ''v0'' example_registered"
    by (simp add: version_content_def example_defs)
  have inv: "\<forall>u \<in> set (listed_versions example_client ''m'' example_registered).
      version_content example_client ''m'' u example_registered"
    using l0 c0 by simp
  have l0': "listed_versions example_client ''m''
      (example_registered \<lparr> faults := [None, Some Transport] \<rparr>) = [''v0'']"
    by (simp add: listed_versions_def example_defs List.map_filter_simps)
  have inv': "\<forall>u \<in> set (listed_versions example_client ''m''
        (example_registered \<lparr> faults := [None, Some Transport] \<rparr>)).
      version_content example_client ''m'' u
        (example_registered \<lparr> faults := [None, Some Transport] \<rparr>)"
    using l0' by (simp add: version_content_def example_defs)
  have ok: "fst (log_model_version example_client ''token'' ''weights1'' ''m'' ''v1''
      example_registered) = Inr ()"
    by (simp add: version_run_defs run_defs example_defs)
  have ko: "fst (log_model_version example_client ''token'' ''weights1'' ''m'' ''v1''
      (example_registered \<lparr> faults := [None, Some Transport] \<rparr>)) = Inl Transport"
    by (simp add: version_run_defs run_defs example_defs)
  have pushed: "version_content example_client ''m'' ''v1''
        (snd (log_model_version example_client ''token'' ''weights1'' ''m'' ''v1''
                (example_registered \<lparr> faults := [None, Some Transport] \<rparr>)))"
    by (simp add: version_content_def version_run_defs run_defs example_defs)
  show ?thesis
    using version_pushed_before_listed [OF inv, of "''token''" "''weights1''" "''v1''"]
      version_pushed_before_listed [OF inv', of "''token''" "''weights1''" "''v1''"]
      l0 l0' c0 ok ko pushed
    by simp
qed

subsection \<open>The first backtest\<close>



subsection \<open>New keys\<close>

text \<open>
  C9. When the prior series is read and \<open>log_model_backtest\<close> returns normally, the stored
  table is sorted by index key, it has the prior rows and the new rows whose key the
  prior series lacks, each such new row among them, and when the two series share no
  key it is the prior rows and the new rows together, sorted, no prior row changed. For
  the prior keys 1, 2, 3 and the new keys 4, 5 the stored table has 5 rows.
\<close>

theorem new_keys_appended_stored_sorted:
  assumes "get_model_backtest self m w = (Inr prior, w1)"
      and "fst (snd (log_model_backtest self na tok model_backtest m v w)) = Inr ()"
  shows "\<exists>result.
           map_of (remote (snd (snd (log_model_backtest self na tok model_backtest m v w))))
             (model_remote_path self m None (Some ''backtest.csv'')) = Some (Csv result)
         \<and> sorted (index (rows result))
         \<and> length (rows result)
             = length (rows prior)
               + length (filter (\<lambda>row. fst row \<notin> set (index (rows prior)))
                           (rows (normalize_backtest model_backtest v)))
         \<and> (\<forall>row \<in> set (rows (normalize_backtest model_backtest v)).
               fst row \<notin> set (index (rows prior)) \<longrightarrow> row \<in> set (rows result))
         \<and> (set (index (rows prior)) \<inter> set (index (rows model_backtest)) = {} \<longrightarrow>
               rows result
                 = sort_key fst (rows prior @ rows (normalize_backtest model_backtest v)))"
proof -
  define new where "new = normalize_backtest model_backtest v"
  define vt where "vt = normalize_version_timestamp model_backtest v"
  have run: "snd (log_model_backtest self na tok model_backtest m v w) =
      (case merge_backtest na prior new vt of
         Inl e \<Rightarrow> (Inl e, w1)
       | Inr merged \<Rightarrow> log_pandas_artifact self tok merged ''backtest'' m None w1)"
    by (simp add: log_model_backtest_def Let_def assms(1) new_def vt_def)
  from assms(2) obtain result where
    merged: "merge_backtest na prior new vt = Inr result"
    by (auto simp: run split: sum.splits)
  then have "log_pandas_artifact self tok result ''backtest'' m None w1
      = (Inr (), snd (snd (log_model_backtest self na tok model_backtest m v w)))"
    using assms(2) by (simp add: run prod_eq_iff)
  then have stored:
    "map_of (remote (snd (snd (log_model_backtest self na tok model_backtest m v w))))
       (model_remote_path self m None (Some ''backtest.csv'')) = Some (Csv result)"
    by (rule log_pandas_artifact_stored)
  have idx: "index (rows new) = index (rows model_backtest)"
    by (simp add: new_def rows_normalize index_stamped)
  show ?thesis
    using stored merge_appends_new_keys_sorted [OF merged]
    unfolding new_def [symmetric] idx by blast
qed

theorem new_keys_appended_stored_sorted_witness:
  "fst (get_model_backtest example_client ''m'' example_stored) = Inr example_prior
   \<and> index (rows example_prior) = [1, 2, 3]
   \<and> index (rows example_disjoint) = [4, 5]
   \<and> fst (snd (log_model_backtest example_client ''nan'' ''token'' example_disjoint ''m'' None
                  example_stored)) = Inr ()
   \<and> (\<exists>result.
         map_of (remote (snd (snd (log_model_backtest example_client ''nan'' ''token''
                   example_disjoint ''m'' None example_stored))))
           ''registry/m/backtest.csv'' = Some (Csv result)
       \<and> length (rows result) = 5
       \<and> sorted (index (rows result))
       \<and> rows result = [(1, Some 10, ''a1''), (2, Some 10, ''a2''), (3, Some 10, ''a3''),
                         (4, Some 5, ''b4''), (5, Some 5, ''b5'')])"
proof -
  have h1: "get_model_backtest example_client ''m'' example_stored
      = (Inr example_prior, example_stored)"
    by (simp add: get_model_backtest_run next_fault_def example_defs)
  have h2: "fst (snd (log_model_backtest example_client ''nan'' ''token'' example_disjoint ''m''
      None example_stored)) = Inr ()"
    by (simp add: run_defs example_defs)
  have new: "rows (normalize_backtest example_disjoint None)
      = [(4, Some 5, ''b4''), (5, Some 5, ''b5'')]"
    by (simp add: run_defs example_defs)
  show ?thesis
    using new_keys_appended_stored_sorted [OF h1 h2, unfolded new] h1 h2
    by (auto simp: example_defs index_def)
qed

subsection \<open>The caller's table\<close>


end
